theory Spec2Isabelle
  imports Main "HOL-Library.Sublist"
begin

section \<open>Strings and patterns of the content script\<close>

text \<open>
  A JavaScript string is modelled as a \<^typ>\<open>string\<close>; one \<^typ>\<open>char\<close> stands for one code
  unit, so \<^const>\<open>length\<close> is \<^verbatim>\<open>.length\<close>, \<^const>\<open>take\<close> is \<^verbatim>\<open>.substring(0, n)\<close> on strings and
  \<^verbatim>\<open>.slice(0, n)\<close> on arrays.  Code units are restricted to the range of \<^typ>\<open>char\<close>, on
  which \<^verbatim>\<open>toLowerCase\<close> maps the letters A to Z and the capital letters of Latin-1 (192 to
  222 without the multiplication sign 215) to the code unit 32 above and leaves the rest.
  \<open>startsWith s p\<close> is \<^verbatim>\<open>s.startsWith(p)\<close>, \<open>includesStr s p\<close> is \<^verbatim>\<open>s.includes(p)\<close> and
  \<open>join sep xs\<close> is \<^verbatim>\<open>xs.join(sep)\<close>.
\<close>

definition lowerChar :: "char \<Rightarrow> char" where
  "lowerChar c =
     (let n = (of_char c :: nat)
      in if (65 \<le> n \<and> n \<le> 90) \<or> (192 \<le> n \<and> n \<le> 222 \<and> n \<noteq> 215)
         then char_of (n + 32) else c)"

definition toLowerCase :: "string \<Rightarrow> string" where
  "toLowerCase s = map lowerChar s"

fun startsWith :: "string \<Rightarrow> string \<Rightarrow> bool" where
  "startsWith s [] = True"
| "startsWith [] (p # ps) = False"
| "startsWith (c # cs) (p # ps) = (c = p \<and> startsWith cs ps)"

fun includesStr :: "string \<Rightarrow> string \<Rightarrow> bool" where
  "includesStr [] p = (p = [])"
| "includesStr (c # cs) p = (startsWith (c # cs) p \<or> includesStr cs p)"

fun join :: "string \<Rightarrow> string list \<Rightarrow> string" where
  "join sep [] = []"
| "join sep [x] = x"
| "join sep (x # y # ys) = x @ sep @ join sep (y # ys)"

text \<open>
  The three regular expressions of \<^verbatim>\<open>SUSPICIOUS_PATTERNS\<close> use literals, \<^verbatim>\<open>\d\<close>, \<^verbatim>\<open>?\<close>,
  \<^verbatim>\<open>{1,3}\<close>, concatenation and the anchor \<^verbatim>\<open>^\<close>.  \<open>residuals r s\<close> lists what is left of
  \<open>s\<close> after each way of matching \<open>r\<close> at its start, in backtracking order.
\<close>

datatype regex = Lit string | Digit | Opt regex | Seq regex regex

definition isDigit :: "char \<Rightarrow> bool" where
  "isDigit c = (c \<in> set ''0123456789'')"

fun residuals :: "regex \<Rightarrow> string \<Rightarrow> string list" where
  "residuals (Lit p) s = (if startsWith s p then [drop (length p) s] else [])"
| "residuals Digit s = (case s of [] \<Rightarrow> [] | c # cs \<Rightarrow> if isDigit c then [cs] else [])"
| "residuals (Opt r) s = residuals r s @ [s]"
| "residuals (Seq r1 r2) s = concat (map (residuals r2) (residuals r1 s))"

fun searchFrom :: "regex \<Rightarrow> string \<Rightarrow> bool" where
  "searchFrom r [] = (residuals r [] \<noteq> [])"
| "searchFrom r (c # cs) = (residuals r (c # cs) \<noteq> [] \<or> searchFrom r cs)"

record pattern =
  anchored :: bool
  body :: regex

definition test :: "pattern \<Rightarrow> string \<Rightarrow> bool" where
  "test p s = (if anchored p then residuals (body p) s \<noteq> [] else searchFrom (body p) s)"

definition digits_1_3 :: regex where
  "digits_1_3 = Seq Digit (Seq (Opt Digit) (Opt Digit))"

definition IP_ADDRESS :: pattern where
  "IP_ADDRESS = \<lparr>anchored = True,
     body = Seq (Lit ''http'') (Seq (Opt (Lit ''s'')) (Seq (Lit ''://'')
           (Seq digits_1_3 (Seq (Lit ''.'') (Seq digits_1_3 (Seq (Lit ''.'')
           (Seq digits_1_3 (Seq (Lit ''.'') digits_1_3))))))))\<rparr>"

definition PUNYCODE :: pattern where
  "PUNYCODE = \<lparr>anchored = False, body = Lit ''xn--''\<rparr>"

definition MAILTO :: pattern where
  "MAILTO = \<lparr>anchored = True, body = Lit ''mailto:''\<rparr>"

definition GOOGLE_DOMAINS :: "string list" where
  "GOOGLE_DOMAINS = [''google.com'', ''docs.google.com'', ''forms.gle'', ''googleforms.com'']"

section \<open>Values read from the document\<close>

text \<open>
  Where the script reads a property of an element and goes on as if it were a string,
  the value is a string, \<^verbatim>\<open>undefined\<close> (the element has no such property), or an object that
  is not a string, written with the name of its class.  \<open>toStr\<close> is the conversion to a
  string that a template literal, \<^verbatim>\<open>RegExp.test\<close> and the \<^verbatim>\<open>URL\<close> constructor apply,
  \<open>truthy\<close> is what \<^verbatim>\<open>if\<close> and \<^verbatim>\<open>||\<close> test, and \<open>substringTo v n\<close> is \<^verbatim>\<open>v.substring(0, n)\<close>,
  which throws a \<^verbatim>\<open>TypeError\<close> on a value that has no method \<^verbatim>\<open>substring\<close>.
\<close>

datatype jsval = JSUndefined | JSString string | JSObject string

datatype error = TypeError

fun toStr :: "jsval \<Rightarrow> string" where
  "toStr JSUndefined = ''undefined''"
| "toStr (JSString s) = s"
| "toStr (JSObject c) = ''[object '' @ c @ '']''"

fun truthy :: "jsval \<Rightarrow> bool" where
  "truthy JSUndefined = False"
| "truthy (JSString s) = (s \<noteq> [])"
| "truthy (JSObject c) = True"

fun isString :: "jsval \<Rightarrow> bool" where
  "isString (JSString s) = True"
| "isString JSUndefined = False"
| "isString (JSObject c) = False"

definition orElse :: "jsval \<Rightarrow> jsval \<Rightarrow> jsval" where
  "orElse a b = (if truthy a then a else b)"

fun substringTo :: "jsval \<Rightarrow> nat \<Rightarrow> error + string" where
  "substringTo (JSString s) n = Inr (take n s)"
| "substringTo JSUndefined n = Inl TypeError"
| "substringTo (JSObject c) n = Inl TypeError"

section \<open>The page and the script's own state\<close>

text \<open>
  What the script cannot compute itself is a parameter: the URL parser of the browser
  (\<open>urlHostname u\<close> is \<^verbatim>\<open>new URL(u).hostname\<close>, \<open>None\<close> when the constructor throws), the
  optional sanitizer library, whether \<^verbatim>\<open>chrome.runtime\<close> is there, and the clock
  (\<open>dateNow k\<close> is what the \<open>k\<close>-th call of \<^verbatim>\<open>Date.now()\<close> returns).
\<close>

record env =
  urlHostname :: "string \<Rightarrow> string option"
  domPurify :: "(string \<Rightarrow> string) option"
  chromeRuntime :: bool
  dateNow :: "nat \<Rightarrow> int"

record button =
  disabled :: bool
  originalDisabled :: "string option"

text \<open>
  An element that \<^verbatim>\<open>document.querySelectorAll('form')\<close> selects.  \<open>action\<close> is what reading
  its \<^verbatim>\<open>action\<close> property gives: for an HTML form the URL that its attribute resolves to
  (the URL of the document when the attribute is missing or empty), hence a string that
  is not empty; the control named \<^verbatim>\<open>action\<close> when the form has one (named controls shadow
  the properties of a form), an object; and \<^verbatim>\<open>undefined\<close> for a \<^verbatim>\<open>form\<close> element outside the
  HTML namespace (a \<^verbatim>\<open>form\<close> child of an \<^verbatim>\<open>svg\<close> element, or one made with
  \<^verbatim>\<open>createElementNS\<close>), which the selector matches as well and which has no such property.
  \<open>actionAttr\<close> is \<^verbatim>\<open>getAttribute('action')\<close> (\<open>None\<close> when the attribute is absent),
  \<open>submitButtons\<close> are the controls that \<^verbatim>\<open>button[type="submit"], input[type="submit"]\<close>
  selects inside it, \<open>sf_hasBanner\<close> is the expando \<^verbatim>\<open>__sf_hasBanner\<close>, and
  \<open>preventSubmission\<close> says whether that listener is registered for \<^verbatim>\<open>submit\<close> (registering
  the same listener twice is registering it once).
\<close>

record form =
  action :: jsval
  actionAttr :: "string option"
  submitButtons :: "button list"
  sf_hasBanner :: bool
  preventSubmission :: bool

text \<open>
  An element that \<^verbatim>\<open>a[href]\<close> selects: its attribute, and what reading its \<^verbatim>\<open>href\<close>
  property gives.  For an HTML anchor that is the attribute resolved against the URL of
  the document, a string (the fragment \<^verbatim>\<open>#top\<close> on the page \<^verbatim>\<open>https://host/p\<close> reads
  \<^verbatim>\<open>https://host/p#top\<close>; a \<^verbatim>\<open>javascript:\<close> URL reads as it is written); for an SVG anchor it
  is an \<^verbatim>\<open>SVGAnimatedString\<close>, an object.  The script reads the property only.
\<close>

record anchor =
  hrefAttr :: string
  href :: jsval

text \<open>
  A banner element, with what its click handlers close over and change: the form it was
  made for, the text of the message, and the label and \<^verbatim>\<open>disabled\<close> flag of the ignore
  button.  Styling is left out.
\<close>

record banner =
  bannerForm :: nat
  messageText :: string
  ignoreText :: string
  ignoreDisabled :: bool

record finding =
  url :: jsval
  reason :: string

record analysis =
  formAction :: jsval
  pageUrl :: string
  reasons :: "string list"
  isSuspicious :: bool

record alertLink =
  linkUrl :: string
  linkReason :: string

record alert =
  alertType :: string
  alertReason :: string
  alertFormAction :: string
  alertPageUrl :: string
  alertSuspiciousLinks :: "alertLink list"
  timestamp :: int

text \<open>
  The calls the claims count, recorded in order with the identity of the form; this
  log is instrumentation and no function reads it.  \<open>FormAnalyzed i\<close>: \<open>analyzeForm\<close>
  ran on form \<open>i\<close>.  \<open>BannerInserted i\<close>: a banner for form \<open>i\<close> was put into the
  document.  \<open>SubmissionDisabled i\<close>: \<open>disableFormSubmission\<close> ran on form \<open>i\<close>.
  \<open>AlertSent (Some i)\<close>: \<open>sendAlert\<close> returned from the call with the analysis of form
  \<open>i\<close> (\<open>AlertSent None\<close>: with the links-only analysis).  \<open>MarkedProcessed i\<close>: form
  \<open>i\<close> was added to \<open>processedForms\<close>.
\<close>

datatype call =
    FormAnalyzed nat
  | BannerInserted nat
  | SubmissionDisabled nat
  | AlertSent "nat option"
  | MarkedProcessed nat

text \<open>
  The document and the variables of the script.  Form elements are identified by a
  number; \<open>formIds\<close> is \<^verbatim>\<open>document.querySelectorAll('form')\<close> in document order and
  \<open>formOf\<close> the element behind each identity.  \<open>links\<close> is
  \<^verbatim>\<open>document.querySelectorAll('a[href]')\<close>.  \<open>banners\<close> are the elements of class
  \<^verbatim>\<open>sf-warning-banner\<close> in document order; \<open>pageText\<close> is the text of the body without
  them.  The four flags say whether \<^verbatim>\<open>[alt*="Google"]\<close>, \<^verbatim>\<open>[src*="google"]\<close>,
  \<^verbatim>\<open>.google-logo\<close> and \<^verbatim>\<open>[class*="google"]\<close> select an element (no element of a banner
  matches any of them).  \<open>timers\<close> are the pending removals that the dismiss button has
  scheduled.
\<close>

record world =
  location_href :: string
  title :: string
  pageText :: string
  altGoogle :: bool
  srcGoogle :: bool
  googleLogo :: bool
  classGoogle :: bool
  links :: "anchor list"
  formIds :: "nat list"
  formOf :: "nat \<Rightarrow> form"
  banners :: "banner list"
  processedForms :: "nat set"
  timers :: "nat list"
  outbox :: "alert list"
  dateNowCalls :: nat
  calls :: "call list"

section \<open>Relevance filter, classifier, verifier\<close>

definition shouldProcessPage :: "world \<Rightarrow> bool" where
  "shouldProcessPage w =
     (let url = toLowerCase (location_href w);
          title = toLowerCase (title w);
          hasForm = (formIds w \<noteq> [])
      in hasForm \<and> (includesStr url ''google'' \<or> includesStr url ''forms'' \<or>
           includesStr url ''test_pages'' \<or> includesStr title ''google form'' \<or> altGoogle w))"

text \<open>
  \<open>isGoogleDomain e u\<close> takes the string that the \<^verbatim>\<open>URL\<close> constructor converts its
  argument to.
\<close>

definition isGoogleDomain :: "env \<Rightarrow> string \<Rightarrow> bool" where
  "isGoogleDomain e u =
     (case urlHostname e u of
        None \<Rightarrow> False
      | Some h \<Rightarrow> (let hostname = toLowerCase h
                  in list_ex (\<lambda>domain. includesStr hostname domain) GOOGLE_DOMAINS))"

definition bannerTextContent :: "banner \<Rightarrow> string" where
  "bannerTextContent b = messageText b @ ignoreText b @ ''Dismiss''"

definition bodyTextContent :: "world \<Rightarrow> string" where
  "bodyTextContent w = concat (map bannerTextContent (banners w)) @ pageText w"

definition looksLikeGoogleForm :: "world \<Rightarrow> bool" where
  "looksLikeGoogleForm w =
     (let title = toLowerCase (title w);
          bodyText = toLowerCase (bodyTextContent w)
      in includesStr title ''google form'' \<or> includesStr bodyText ''google form'' \<or>
         altGoogle w \<or> srcGoogle w \<or> googleLogo w \<or> classGoogle w)"

section \<open>Form analyzer and link analyzer\<close>

text \<open>\<^verbatim>\<open>form.action || form.getAttribute('action') || ''\<close>.\<close>

definition resolvedAction :: "form \<Rightarrow> jsval" where
  "resolvedAction f =
     orElse (action f)
       (orElse (case actionAttr f of Some a \<Rightarrow> JSString a | None \<Rightarrow> JSUndefined) (JSString []))"

definition nonGoogleReason :: "string \<Rightarrow> string" where
  "nonGoogleReason a = ''Form appears to be Google Form but submits to non-Google domain: '' @ a"

definition ipReason :: "string \<Rightarrow> string" where
  "ipReason a = ''Form submits to IP address: '' @ a"

definition mailtoReason :: "string \<Rightarrow> string" where
  "mailtoReason a = ''Form uses mailto action: '' @ a"

definition punycodeReason :: "string \<Rightarrow> string" where
  "punycodeReason a = ''Form action contains punycode: '' @ a"

definition analyzeForm :: "env \<Rightarrow> world \<Rightarrow> form \<Rightarrow> analysis" where
  "analyzeForm e w f =
     (let formAction = resolvedAction f;
          pageUrl = location_href w;
          suspiciousReasons =
            (if truthy formAction then
               (if looksLikeGoogleForm w \<and> \<not> isGoogleDomain e (toStr formAction)
                then [nonGoogleReason (toStr formAction)] else []) @
               (if test IP_ADDRESS (toStr formAction) then [ipReason (toStr formAction)] else []) @
               (if test MAILTO (toStr formAction) then [mailtoReason (toStr formAction)] else []) @
               (if test PUNYCODE (toStr formAction) then [punycodeReason (toStr formAction)]
                else [])
             else [])
      in \<lparr>formAction = formAction, pageUrl = pageUrl, reasons = suspiciousReasons,
          isSuspicious = (length suspiciousReasons > 0)\<rparr>)"

text \<open>
  The callback of the loop over the anchors gives the findings it pushes, or the
  exception it throws: \<^verbatim>\<open>href.startsWith\<close> is reached only when the page looks like the
  brand and the verifier rejects the target, and it throws on a value that is not a
  string.  An exception ends the loop and the function.
\<close>

definition linkFindings :: "env \<Rightarrow> world \<Rightarrow> anchor \<Rightarrow> error + finding list" where
  "linkFindings e w link =
     (let href = href link;
          ip = (if test IP_ADDRESS (toStr href)
                then [\<lparr>url = href, reason = ''IP address link''\<rparr>] else []);
          puny = (if test PUNYCODE (toStr href)
                  then [\<lparr>url = href, reason = ''Punycode link''\<rparr>] else [])
      in if looksLikeGoogleForm w \<and> \<not> isGoogleDomain e (toStr href) then
           (case href of
              JSString s \<Rightarrow>
                Inr (ip @ puny @
                  (if \<not> startsWith s ''#'' \<and> \<not> startsWith s ''javascript:''
                   then [\<lparr>url = href, reason = ''Non-Google link on Google-looking form''\<rparr>]
                   else []))
            | JSUndefined \<Rightarrow> Inl TypeError
            | JSObject c \<Rightarrow> Inl TypeError)
         else Inr (ip @ puny))"

fun forEachLink :: "env \<Rightarrow> world \<Rightarrow> anchor list \<Rightarrow> finding list \<Rightarrow> error + finding list" where
  "forEachLink e w [] suspiciousLinks = Inr suspiciousLinks"
| "forEachLink e w (link # rest) suspiciousLinks =
     (case linkFindings e w link of
        Inl err \<Rightarrow> Inl err
      | Inr pushed \<Rightarrow> forEachLink e w rest (suspiciousLinks @ pushed))"

definition analyzeSuspiciousLinks :: "env \<Rightarrow> world \<Rightarrow> error + finding list" where
  "analyzeSuspiciousLinks e w = forEachLink e w (links w) []"

section \<open>Form guard, warning banner, alert emitter\<close>

text \<open>
  \<^verbatim>\<open>div.textContent = text; return div.innerHTML\<close>: the serialisation of a text node.
\<close>

definition escapeChar :: "char \<Rightarrow> string" where
  "escapeChar c =
     (if c = CHR ''&'' then ''&amp;''
      else if c = CHR 0xA0 then ''&nbsp;''
      else if c = CHR ''<'' then ''&lt;''
      else if c = CHR ''>'' then ''&gt;''
      else [c])"

definition sanitizeText :: "env \<Rightarrow> string \<Rightarrow> string" where
  "sanitizeText e text =
     (case domPurify e of
        Some sanitize \<Rightarrow> sanitize text
      | None \<Rightarrow> concat (map escapeChar text))"

definition boolString :: "bool \<Rightarrow> string" where
  "boolString b = (if b then ''true'' else ''false'')"

definition disableButton :: "button \<Rightarrow> button" where
  "disableButton b =
     (let b1 = b\<lparr>disabled := True\<rparr>
      in b1\<lparr>originalDisabled := Some (boolString (disabled b1))\<rparr>)"

definition disableFormSubmission :: "form \<Rightarrow> form" where
  "disableFormSubmission f =
     f\<lparr>submitButtons := map disableButton (submitButtons f), preventSubmission := True\<rparr>"

definition enableButton :: "button \<Rightarrow> button" where
  "enableButton b = b\<lparr>disabled := (originalDisabled b = Some ''true'')\<rparr>"

definition enableFormSubmission :: "form \<Rightarrow> form" where
  "enableFormSubmission f =
     f\<lparr>submitButtons := map enableButton (submitButtons f), preventSubmission := False\<rparr>"

text \<open>
  The warning sign, the check mark and the dash of the banner's messages are beyond the
  range of \<^typ>\<open>char\<close>; they are written as their UTF-8 bytes.  The script only searches
  the text of the body for \<^verbatim>\<open>google form\<close>, which no byte of them can be part of.
\<close>

definition WARNING_SIGN :: string where
  "WARNING_SIGN = [CHR 0xE2, CHR 0x9A, CHR 0xA0, CHR 0xEF, CHR 0xB8, CHR 0x8F]"

definition OVERRIDE_MESSAGE :: string where
  "OVERRIDE_MESSAGE = [CHR 0xE2, CHR 0x9C, CHR 0x93] @ '' Submission enabled '' @
     [CHR 0xE2, CHR 0x80, CHR 0x94] @ '' proceed with caution.''"

definition logCall :: "call \<Rightarrow> world \<Rightarrow> world" where
  "logCall c w = w\<lparr>calls := calls w @ [c]\<rparr>"

definition updateForm :: "nat \<Rightarrow> (form \<Rightarrow> form) \<Rightarrow> world \<Rightarrow> world" where
  "updateForm i g w = w\<lparr>formOf := (formOf w)(i := g (formOf w i))\<rparr>"

definition createFormWarningBanner :: "env \<Rightarrow> nat \<Rightarrow> analysis \<Rightarrow> world \<Rightarrow> world" where
  "createFormWarningBanner e i a w =
     (if sf_hasBanner (formOf w i) \<or> banners w \<noteq> [] then w
      else
        let w1 = updateForm i (\<lambda>f. f\<lparr>sf_hasBanner := True\<rparr>) w;
            reasonText =
              (if join '', '' (reasons a) \<noteq> [] then join '', '' (reasons a)
               else ''Suspicious form detected. Your submission has been blocked for safety.'');
            safeReason = sanitizeText e reasonText;
            b = \<lparr>bannerForm = i, messageText = WARNING_SIGN @ '' '' @ safeReason,
                 ignoreText = ''Ignore & Submit Anyway'', ignoreDisabled = False\<rparr>;
            w2 = logCall (BannerInserted i) (w1\<lparr>banners := b # banners w1\<rparr>)
        in logCall (SubmissionDisabled i) (updateForm i disableFormSubmission w2))"

text \<open>
  The record of \<open>sendAlert\<close> is built outside its \<^verbatim>\<open>try\<close>: the fields are evaluated in
  the order of the source, and \<^verbatim>\<open>substring\<close> on a form action or on the URL of a link that
  is not a string throws before \<^verbatim>\<open>Date.now()\<close> is called and before anything is sent.
\<close>

fun mapLinks :: "finding list \<Rightarrow> error + alertLink list" where
  "mapLinks [] = Inr []"
| "mapLinks (link # rest) =
     (case substringTo (orElse (url link) (JSString [])) 200 of
        Inl err \<Rightarrow> Inl err
      | Inr u \<Rightarrow>
          (case mapLinks rest of
             Inl err \<Rightarrow> Inl err
           | Inr others \<Rightarrow>
               Inr (\<lparr>linkUrl = u, linkReason = take 100 (reason link)\<rparr> # others)))"

definition sanitizedData :: "world \<Rightarrow> analysis \<Rightarrow> finding list \<Rightarrow> int \<Rightarrow> error + alert" where
  "sanitizedData w a suspiciousLinks now =
     (case substringTo (orElse (formAction a) (JSString [])) 200 of
        Inl err \<Rightarrow> Inl err
      | Inr act \<Rightarrow>
          (case mapLinks (take 10 suspiciousLinks) of
             Inl err \<Rightarrow> Inl err
           | Inr ls \<Rightarrow>
               Inr \<lparr>alertType = ''PHISHING_ALERT'',
                    alertReason = take 500 (join '', '' (reasons a)),
                    alertFormAction = act,
                    alertPageUrl =
                      take 200 (if pageUrl a \<noteq> [] then pageUrl a else location_href w),
                    alertSuspiciousLinks = ls,
                    timestamp = now\<rparr>))"

definition sendAlert :: "env \<Rightarrow> analysis \<Rightarrow> finding list \<Rightarrow> world \<Rightarrow> error + world" where
  "sendAlert e a suspiciousLinks w =
     (case sanitizedData w a suspiciousLinks (dateNow e (dateNowCalls w)) of
        Inl err \<Rightarrow> Inl err
      | Inr d \<Rightarrow>
          (let w1 = w\<lparr>dateNowCalls := Suc (dateNowCalls w)\<rparr>
           in Inr (if chromeRuntime e then w1\<lparr>outbox := outbox w1 @ [d]\<rparr> else w1)))"

section \<open>The analysis pass and the user's clicks\<close>

text \<open>
  The callback of the loop over the forms gives the exception it throws if any, the
  flag \<^verbatim>\<open>foundSuspiciousForm\<close> and the state it leaves.  An exception of \<open>sendAlert\<close>
  leaves the callback before \<^verbatim>\<open>processedForms.add\<close>; what \<open>createFormWarningBanner\<close> has
  done by then stays done.  Once a callback has thrown, \<^verbatim>\<open>forEach\<close> runs no further
  callback.
\<close>

definition formCallback ::
  "env \<Rightarrow> finding list \<Rightarrow> nat \<Rightarrow> bool \<Rightarrow> world \<Rightarrow> error option \<times> bool \<times> world" where
  "formCallback e suspiciousLinks i foundSuspiciousForm w =
     (if i \<in> processedForms w then (None, foundSuspiciousForm, w)
      else
        let a = analyzeForm e w (formOf w i);
            w0 = logCall (FormAnalyzed i) w
        in if isSuspicious a then
             let w1 = createFormWarningBanner e i a w0
             in (case sendAlert e a suspiciousLinks w1 of
                   Inl err \<Rightarrow> (Some err, True, w1)
                 | Inr w2 \<Rightarrow>
                     let w3 = logCall (AlertSent (Some i)) w2;
                         w4 = logCall (MarkedProcessed i)
                                (w3\<lparr>processedForms := insert i (processedForms w3)\<rparr>)
                     in (None, True, w4))
           else (None, foundSuspiciousForm, w0))"

definition thrownOf :: "error option \<times> bool \<times> world \<Rightarrow> error option" where
  "thrownOf r = fst r"

definition foundOf :: "error option \<times> bool \<times> world \<Rightarrow> bool" where
  "foundOf r = fst (snd r)"

definition worldOf :: "error option \<times> bool \<times> world \<Rightarrow> world" where
  "worldOf r = snd (snd r)"

definition loopStep ::
  "env \<Rightarrow> finding list \<Rightarrow> nat \<Rightarrow> error option \<times> bool \<times> world \<Rightarrow> error option \<times> bool \<times> world" where
  "loopStep e suspiciousLinks i r =
     (case thrownOf r of
        Some err \<Rightarrow> r
      | None \<Rightarrow> formCallback e suspiciousLinks i (foundOf r) (worldOf r))"

definition forEachForm ::
  "env \<Rightarrow> finding list \<Rightarrow> nat list \<Rightarrow> bool \<Rightarrow> world \<Rightarrow> error option \<times> bool \<times> world" where
  "forEachForm e suspiciousLinks forms foundSuspiciousForm w =
     fold (loopStep e suspiciousLinks) forms (None, foundSuspiciousForm, w)"

text \<open>
  A pass gives the exception that ended it, if any, and the state it leaves: an
  exception that no \<^verbatim>\<open>try\<close> of the script catches ends the pass where it is thrown, and
  the changes made until then stay.
\<close>

definition analyzePageForPhishing :: "env \<Rightarrow> world \<Rightarrow> error option \<times> world" where
  "analyzePageForPhishing e w =
     (if \<not> shouldProcessPage w then (None, w)
      else
        let forms = formIds w
        in (case analyzeSuspiciousLinks e w of
              Inl err \<Rightarrow> (Some err, w)
            | Inr suspiciousLinks \<Rightarrow>
                let r = forEachForm e suspiciousLinks forms False w;
                    w1 = worldOf r
                in (case thrownOf r of
                      Some err \<Rightarrow> (Some err, w1)
                    | None \<Rightarrow>
                        if \<not> foundOf r \<and> length suspiciousLinks > 0 \<and> looksLikeGoogleForm w1
                        then
                          let a = \<lparr>formAction = JSString [], pageUrl = location_href w1,
                                   reasons = [''Suspicious links found: '' @
                                              join '', '' (map reason suspiciousLinks)],
                                   isSuspicious = True\<rparr>
                          in (case sendAlert e a suspiciousLinks w1 of
                                Inl err \<Rightarrow> (Some err, w1)
                              | Inr w2 \<Rightarrow> (None, logCall (AlertSent None) w2))
                        else (None, w1))))"

text \<open>
  The two buttons of a banner.  A banner is named by the form it was made for (its
  handlers close over that form).  A click reaches the ignore button only while the
  banner is in the document and the button is not disabled.  The dismiss handler only
  schedules the removal (\<^verbatim>\<open>setTimeout\<close>); a later timer event removes the banner and
  resets \<^verbatim>\<open>__sf_hasBanner\<close> of the form.
\<close>

definition overrideBanner :: "banner \<Rightarrow> banner" where
  "overrideBanner b =
     b\<lparr>messageText := OVERRIDE_MESSAGE, ignoreDisabled := True,
       ignoreText := ''Submission Enabled''\<rparr>"

definition ignoreClick :: "nat \<Rightarrow> world \<Rightarrow> world" where
  "ignoreClick i w =
     (if list_ex (\<lambda>b. bannerForm b = i \<and> \<not> ignoreDisabled b) (banners w) then
        let w1 = updateForm i enableFormSubmission w
        in w1\<lparr>banners := map (\<lambda>b. if bannerForm b = i then overrideBanner b else b) (banners w1)\<rparr>
      else w)"

definition dismissClick :: "nat \<Rightarrow> world \<Rightarrow> world" where
  "dismissClick i w =
     (if list_ex (\<lambda>b. bannerForm b = i) (banners w) then w\<lparr>timers := timers w @ [i]\<rparr> else w)"

definition dismissTimeout :: "nat \<Rightarrow> world \<Rightarrow> world" where
  "dismissTimeout i w =
     (if i \<in> set (timers w) then
        let w1 = w\<lparr>timers := remove1 i (timers w),
                   banners := filter (\<lambda>b. bannerForm b \<noteq> i) (banners w)\<rparr>
        in updateForm i (\<lambda>f. f\<lparr>sf_hasBanner := False\<rparr>) w1
      else w)"

text \<open>
  An event of a page session is an analysis pass (run as the listener of
  \<^verbatim>\<open>DOMContentLoaded\<close>, or by the timer that the mutation observer sets when a node with
  a form is added) or one of the three above.  An exception that ends such a pass is
  reported by the event loop; the session goes on from the state the pass has left.
  (The script also runs a pass directly when it starts on a document that is already
  parsed; an exception there would end the script before it installs the observer, and
  no later pass would follow.)
\<close>

datatype event = Scan | IgnoreClick nat | DismissClick nat | DismissTimeout nat

fun step :: "env \<Rightarrow> event \<Rightarrow> world \<Rightarrow> world" where
  "step e Scan w = snd (analyzePageForPhishing e w)"
| "step e (IgnoreClick i) w = ignoreClick i w"
| "step e (DismissClick i) w = dismissClick i w"
| "step e (DismissTimeout i) w = dismissTimeout i w"

definition run :: "env \<Rightarrow> event list \<Rightarrow> world \<Rightarrow> world" where
  "run e evs w = fold (step e) evs w"

text \<open>
  A page session starts with no banner, no processed form, no timer, no alert and no
  form that carries the banner flag.
\<close>

definition fresh :: "world \<Rightarrow> bool" where
  "fresh w = (banners w = [] \<and> processedForms w = {} \<and> timers w = [] \<and> outbox w = [] \<and>
     calls w = [] \<and> (\<forall>i. \<not> sf_hasBanner (formOf w i)))"

text \<open>
  A page on which no read gives an object where the script expects a string: the action
  of every form resolves to a string (no form has a control named \<^verbatim>\<open>action\<close>), and the
  \<^verbatim>\<open>href\<close> of every anchor is a string (every anchor is an HTML anchor).
\<close>

definition stringTyped :: "world \<Rightarrow> bool" where
  "stringTyped w = (list_all (\<lambda>i. isString (resolvedAction (formOf w i))) (formIds w) \<and>
     list_all (\<lambda>l. isString (href l)) (links w))"

section \<open>Example pages\<close>

text \<open>
  The hostnames the URL parser gives for the URLs of the examples; it rejects every
  other string of the examples.
\<close>

definition exampleHostname :: "string \<Rightarrow> string option" where
  "exampleHostname u = map_of
     [(''https://docs.google.com/forms/d/e/xyz/formResponse'', ''docs.google.com''),
      (''http://203.0.113.5/submit'', ''203.0.113.5''),
      (''https://accounts-google-secure.xn--80ak6aa92e.com/submit'',
         ''accounts-google-secure.xn--80ak6aa92e.com''),
      (''http://198.51.100.9/track'', ''198.51.100.9''),
      (''https://forms.example.net/login'', ''forms.example.net''),
      (''https://forms.example.net/login#top'', ''forms.example.net''),
      (''javascript:void(0)'', [])] u"

definition exampleEnv :: env where
  "exampleEnv = \<lparr>urlHostname = exampleHostname, domPurify = None, chromeRuntime = True,
     dateNow = (\<lambda>k. 1700000000000 + int k)\<rparr>"

definition enabledButton :: button where
  "enabledButton = \<lparr>disabled = False, originalDisabled = None\<rparr>"

definition disabledButton :: button where
  "disabledButton = \<lparr>disabled = True, originalDisabled = None\<rparr>"

text \<open>
  An HTML form whose \<^verbatim>\<open>action\<close> attribute is the absolute URL \<open>a\<close>, with an enabled and a
  disabled submit control; the same form with a control named \<^verbatim>\<open>action\<close> (an \<^verbatim>\<open>input\<close>
  element, which reading \<^verbatim>\<open>form.action\<close> then gives); and a \<^verbatim>\<open>form\<close> element in the SVG
  namespace with no \<^verbatim>\<open>action\<close> attribute and one enabled submit control.
\<close>

definition formTo :: "string \<Rightarrow> form" where
  "formTo a = \<lparr>action = JSString a, actionAttr = Some a,
     submitButtons = [enabledButton, disabledButton],
     sf_hasBanner = False, preventSubmission = False\<rparr>"

definition clobberedFormTo :: "string \<Rightarrow> form" where
  "clobberedFormTo a = (formTo a)\<lparr>action := JSObject ''HTMLInputElement''\<rparr>"

definition foreignForm :: form where
  "foreignForm = \<lparr>action = JSUndefined, actionAttr = None, submitButtons = [enabledButton],
     sf_hasBanner = False, preventSubmission = False\<rparr>"

definition ipAction :: string where
  "ipAction = ''http://203.0.113.5/submit''"

definition punycodeAction :: string where
  "punycodeAction = ''https://accounts-google-secure.xn--80ak6aa92e.com/submit''"

definition googleAction :: string where
  "googleAction = ''https://docs.google.com/forms/d/e/xyz/formResponse''"

definition htmlAnchor :: "string \<Rightarrow> string \<Rightarrow> anchor" where
  "htmlAnchor attr resolved = \<lparr>hrefAttr = attr, href = JSString resolved\<rparr>"

definition examplePage :: "nat list \<Rightarrow> (nat \<Rightarrow> form) \<Rightarrow> anchor list \<Rightarrow> world" where
  "examplePage ids fs ls =
     \<lparr>location_href = ''https://forms.example.net/login'', title = ''Google Form Login'',
      pageText = ''Sign in to continue'', altGoogle = False, srcGoogle = False,
      googleLogo = False, classGoogle = False, links = ls, formIds = ids, formOf = fs,
      banners = [], processedForms = {}, timers = [], outbox = [], dateNowCalls = 0,
      calls = []\<rparr>"

definition oneForm :: world where
  "oneForm = examplePage [1] ((\<lambda>_. formTo googleAction)(1 := formTo ipAction)) []"

definition twoForms :: world where
  "twoForms = examplePage [1, 2]
     ((\<lambda>_. formTo googleAction)(1 := formTo ipAction, 2 := formTo punycodeAction)) []"

definition clobberedPage :: world where
  "clobberedPage = examplePage [1]
     ((\<lambda>_. formTo googleAction)(1 := clobberedFormTo ipAction)) []"

text \<open>
  A page with a form to the brand, a fragment anchor, a script anchor and an anchor to an
  IP address, each with the \<^verbatim>\<open>href\<close> that the browser gives for it on this page.
\<close>

definition linkPage :: world where
  "linkPage = examplePage [1] (\<lambda>_. formTo googleAction)
     [htmlAnchor ''#top'' ''https://forms.example.net/login#top'',
      htmlAnchor ''javascript:void(0)'' ''javascript:void(0)'',
      htmlAnchor ''http://198.51.100.9/track'' ''http://198.51.100.9/track'']"

definition foreignPage :: world where
  "foreignPage = examplePage [1] ((\<lambda>_. formTo googleAction)(1 := foreignForm)) []"

definition longAnalysis :: analysis where
  "longAnalysis = \<lparr>formAction = JSString (replicate 300 (CHR ''a'')), pageUrl = [],
     reasons = [replicate 400 (CHR ''r''), replicate 400 (CHR ''s'')], isSuspicious = True\<rparr>"

definition longLinks :: "finding list" where
  "longLinks = replicate 12
     \<lparr>url = JSString (replicate 250 (CHR ''u'')), reason = replicate 150 (CHR ''x'')\<rparr>"


section \<open>Notions used in the proofs\<close>

text \<open>
  When \<open>sendAlert\<close> builds its record without an exception: the form action and the URL
  of each of the first ten links are strings or falsy.  And the state it leaves then.
\<close>

definition alertBuilds :: "analysis \<Rightarrow> finding list \<Rightarrow> bool" where
  "alertBuilds a ls = (isString (orElse (formAction a) (JSString [])) \<and>
     list_all (\<lambda>l. isString (orElse (url l) (JSString []))) (take 10 ls))"

definition delivered :: "env \<Rightarrow> analysis \<Rightarrow> finding list \<Rightarrow> world \<Rightarrow> world" where
  "delivered e a ls w =
     w\<lparr>dateNowCalls := Suc (dateNowCalls w),
       outbox := outbox w @
         (if chromeRuntime e
          then [projr (sanitizedData w a ls (dateNow e (dateNowCalls w)))] else [])\<rparr>"

text \<open>
  The size caps of an alert record, and where its timestamp comes from.
\<close>

definition withinCaps :: "alert \<Rightarrow> bool" where
  "withinCaps d = (length (alertReason d) \<le> 500 \<and> length (alertFormAction d) \<le> 200 \<and>
     length (alertPageUrl d) \<le> 200 \<and> length (alertSuspiciousLinks d) \<le> 10 \<and>
     list_all (\<lambda>l. length (linkUrl l) \<le> 200 \<and> length (linkReason l) \<le> 100)
       (alertSuspiciousLinks d))"

definition emitted :: "env \<Rightarrow> alert \<Rightarrow> bool" where
  "emitted e d = (withinCaps d \<and> timestamp d \<in> range (dateNow e))"

text \<open>
  The banner that \<open>createFormWarningBanner\<close> builds, and the guard under which it
  returns without building one.
\<close>

definition newBanner :: "env \<Rightarrow> nat \<Rightarrow> analysis \<Rightarrow> banner" where
  "newBanner e i a =
     \<lparr>bannerForm = i,
      messageText = WARNING_SIGN @ '' '' @ sanitizeText e
        (if join '', '' (reasons a) \<noteq> [] then join '', '' (reasons a)
         else ''Suspicious form detected. Your submission has been blocked for safety.''),
      ignoreText = ''Ignore & Submit Anyway'', ignoreDisabled = False\<rparr>"

definition bannerRefused :: "nat \<Rightarrow> world \<Rightarrow> bool" where
  "bannerRefused i w = (sf_hasBanner (formOf w i) \<or> banners w \<noteq> [])"

text \<open>
  A callback of the loop flags a form when the form is not yet processed and is suspicious.
\<close>

definition flagged :: "env \<Rightarrow> nat \<Rightarrow> world \<Rightarrow> bool" where
  "flagged e i w = (i \<notin> processedForms w \<and> isSuspicious (analyzeForm e w (formOf w i)))"











section \<open>Strings\<close>

lemma startsWith_prefix: "startsWith s p \<longleftrightarrow> prefix p s"
  by (induction s p rule: startsWith.induct) auto

lemma includesStr_sublist: "includesStr s p \<longleftrightarrow> sublist p s"
  by (induction s) (auto simp: startsWith_prefix sublist_Cons_right)

lemma includesStr_split: "includesStr s p \<longleftrightarrow> (\<exists>pre suf. s = pre @ p @ suf)"
  by (simp add: includesStr_sublist sublist_def)

lemma test_MAILTO_iff: "test MAILTO s \<longleftrightarrow> prefix ''mailto:'' s"
  by (simp add: test_def MAILTO_def startsWith_prefix)

lemma searchFrom_Lit: "p \<noteq> [] \<Longrightarrow> searchFrom (Lit p) s \<longleftrightarrow> includesStr s p"
  by (induction s) (auto simp: neq_Nil_conv)

lemma test_PUNYCODE_iff: "test PUNYCODE s \<longleftrightarrow> sublist ''xn--'' s"
  by (simp add: test_def PUNYCODE_def searchFrom_Lit includesStr_sublist)

lemma test_IP_ADDRESS_Nil: "\<not> test IP_ADDRESS []"
  by code_simp

lemma test_MAILTO_Nil: "\<not> test MAILTO []"
  by code_simp

lemma test_PUNYCODE_Nil: "\<not> test PUNYCODE []"
  by code_simp




section \<open>Destination verifier\<close>

text \<open>
  C4.  \<open>isGoogleDomain\<close> fails closed: on a string the URL parser rejects it returns
  false (the exception of the constructor is caught, nothing is thrown outward), and on
  a parseable URL it returns true exactly when the lower-cased hostname contains an entry
  of \<open>GOOGLE_DOMAINS\<close> as a substring.
\<close>

theorem isGoogleDomain_fails_closed:
  "(urlHostname e u = None \<longrightarrow> \<not> isGoogleDomain e u) \<and>
   (\<forall>h. urlHostname e u = Some h \<longrightarrow>
      (isGoogleDomain e u \<longleftrightarrow>
        (\<exists>d \<in> set GOOGLE_DOMAINS. \<exists>pre suf. toLowerCase h = pre @ d @ suf)))"
  by (simp add: isGoogleDomain_def list_ex_iff includesStr_split)

lemma exampleHostname_rejects: "urlHostname exampleEnv ''not a url'' = None"
  by (simp add: exampleEnv_def exampleHostname_def)

lemma exampleHostname_docs:
  "urlHostname exampleEnv ''https://docs.google.com/forms/d/e/xyz/formResponse'' =
     Some ''docs.google.com''"
  by (simp add: exampleEnv_def exampleHostname_def)

theorem isGoogleDomain_fails_closed_witness:
  "\<not> isGoogleDomain exampleEnv ''not a url'' \<and>
   isGoogleDomain exampleEnv ''https://docs.google.com/forms/d/e/xyz/formResponse''"
proof
  show "\<not> isGoogleDomain exampleEnv ''not a url''"
    by (rule isGoogleDomain_fails_closed
          [THEN conjunct1, rule_format, OF exampleHostname_rejects])
next
  have d: "''docs.google.com'' \<in> set GOOGLE_DOMAINS"
    by (simp add: GOOGLE_DOMAINS_def)
  have l: "toLowerCase ''docs.google.com'' = [] @ ''docs.google.com'' @ []"
    by code_simp
  from d l have
    "\<exists>d \<in> set GOOGLE_DOMAINS. \<exists>pre suf. toLowerCase ''docs.google.com'' = pre @ d @ suf"
    by blast
  then show "isGoogleDomain exampleEnv ''https://docs.google.com/forms/d/e/xyz/formResponse''"
    by (rule isGoogleDomain_fails_closed
          [THEN conjunct2, rule_format, OF exampleHostname_docs, THEN iffD2])
qed

section \<open>Form analyzer\<close>

lemma resolvedAction_falsy: "\<not> truthy (resolvedAction f) \<Longrightarrow> resolvedAction f = JSString []"
  by (cases "action f"; cases "actionAttr f")
    (auto simp: resolvedAction_def orElse_def split: if_splits)

lemma resolvedAction_string:
  "\<forall>c. action f \<noteq> JSObject c \<Longrightarrow> isString (resolvedAction f)"
  by (cases "action f"; cases "actionAttr f")
    (auto simp: resolvedAction_def orElse_def split: if_splits)

lemma analyzeForm_reasons:
  "reasons (analyzeForm e w f) =
     (if truthy (resolvedAction f) \<and> looksLikeGoogleForm w \<and>
         \<not> isGoogleDomain e (toStr (resolvedAction f))
      then [nonGoogleReason (toStr (resolvedAction f))] else []) @
     (if test IP_ADDRESS (toStr (resolvedAction f)) then [ipReason (toStr (resolvedAction f))]
      else []) @
     (if test MAILTO (toStr (resolvedAction f)) then [mailtoReason (toStr (resolvedAction f))]
      else []) @
     (if test PUNYCODE (toStr (resolvedAction f))
      then [punycodeReason (toStr (resolvedAction f))] else [])"
proof (cases "truthy (resolvedAction f)")
  case True
  then show ?thesis by (simp add: analyzeForm_def Let_def)
next
  case False
  then have "resolvedAction f = JSString []" by (rule resolvedAction_falsy)
  then show ?thesis
    by (simp add: analyzeForm_def Let_def test_IP_ADDRESS_Nil test_MAILTO_Nil
        test_PUNYCODE_Nil)
qed

lemma analyzeForm_suspicious:
  "isSuspicious (analyzeForm e w f) \<longleftrightarrow> reasons (analyzeForm e w f) \<noteq> []"
  by (simp add: analyzeForm_def Let_def)



text \<open>
  C5.  The four rules of \<open>analyzeForm\<close> are evaluated independently of each other: the
  reason list is the concatenation, in rule order, of the reason of every rule whose own
  condition holds (so a form can get several reasons), and the result is suspicious
  exactly when the reason list is not empty.  A rule reads the action through its
  conversion to a string.
\<close>

theorem analyzeForm_accumulates:
  "reasons (analyzeForm e w f) =
     (if truthy (resolvedAction f) \<and> looksLikeGoogleForm w \<and>
         \<not> isGoogleDomain e (toStr (resolvedAction f))
      then [nonGoogleReason (toStr (resolvedAction f))] else []) @
     (if test IP_ADDRESS (toStr (resolvedAction f)) then [ipReason (toStr (resolvedAction f))]
      else []) @
     (if test MAILTO (toStr (resolvedAction f)) then [mailtoReason (toStr (resolvedAction f))]
      else []) @
     (if test PUNYCODE (toStr (resolvedAction f))
      then [punycodeReason (toStr (resolvedAction f))] else [])
   \<and> (isSuspicious (analyzeForm e w f) \<longleftrightarrow> reasons (analyzeForm e w f) \<noteq> [])"
  using analyzeForm_reasons [of e w f] analyzeForm_suspicious [of e w f] by simp

theorem analyzeForm_accumulates_witness:
  "reasons (analyzeForm exampleEnv twoForms (formTo punycodeAction)) =
     [nonGoogleReason punycodeAction, punycodeReason punycodeAction] \<and>
   isSuspicious (analyzeForm exampleEnv twoForms (formTo punycodeAction))"
proof -
  note acc = analyzeForm_accumulates [of exampleEnv twoForms "formTo punycodeAction"]
  let ?a = "resolvedAction (formTo punycodeAction)"
  have rhs:
    "(if truthy ?a \<and> looksLikeGoogleForm twoForms \<and> \<not> isGoogleDomain exampleEnv (toStr ?a)
      then [nonGoogleReason (toStr ?a)] else []) @
     (if test IP_ADDRESS (toStr ?a) then [ipReason (toStr ?a)] else []) @
     (if test MAILTO (toStr ?a) then [mailtoReason (toStr ?a)] else []) @
     (if test PUNYCODE (toStr ?a) then [punycodeReason (toStr ?a)] else []) =
     [nonGoogleReason punycodeAction, punycodeReason punycodeAction]"
    by code_simp
  have r: "reasons (analyzeForm exampleEnv twoForms (formTo punycodeAction)) =
     [nonGoogleReason punycodeAction, punycodeReason punycodeAction]"
    by (rule trans [OF acc [THEN conjunct1] rhs])
  have "reasons (analyzeForm exampleEnv twoForms (formTo punycodeAction)) \<noteq> []"
    unfolding r by simp
  then have "isSuspicious (analyzeForm exampleEnv twoForms (formTo punycodeAction))"
    by (rule acc [THEN conjunct2, THEN iffD2])
  with r show ?thesis by (rule conjI)
qed

text \<open>
  C9.  A form whose resolved action is the empty string gets no reason and is not
  suspicious, whatever the page looks like.
\<close>

theorem analyzeForm_empty_action:
  assumes "resolvedAction f = JSString []"
  shows "reasons (analyzeForm e w f) = [] \<and> \<not> isSuspicious (analyzeForm e w f)"
  using assms by (simp add: analyzeForm_def Let_def)

text \<open>
  The \<^verbatim>\<open>action\<close> property of an HTML form is never empty (it is the URL of the document
  when the attribute is missing or empty), so the resolved action is empty only for a
  \<^verbatim>\<open>form\<close> element outside the HTML namespace, which \<^verbatim>\<open>querySelectorAll('form')\<close> also gives:
  it has no \<^verbatim>\<open>action\<close> property, and here no attribute either.  On a page that looks like the
  brand, the pass analyses such a form and does nothing else.
\<close>

lemma resolvedAction_foreignForm: "resolvedAction foreignForm = JSString []"
  by (simp add: resolvedAction_def foreignForm_def orElse_def)

lemma foreignPage_scanned:
  "let w = run exampleEnv [Scan] foreignPage in
     shouldProcessPage foreignPage \<and> looksLikeGoogleForm foreignPage \<and>
     formOf foreignPage 1 = foreignForm \<and> formIds foreignPage = [1] \<and>
     calls w = [FormAnalyzed 1] \<and> banners w = [] \<and> outbox w = [] \<and>
     formOf w 1 = foreignForm"
  by code_simp

theorem analyzeForm_empty_action_witness:
  "looksLikeGoogleForm foreignPage \<and> formOf foreignPage 1 = foreignForm \<and>
   reasons (analyzeForm exampleEnv foreignPage foreignForm) = [] \<and>
   \<not> isSuspicious (analyzeForm exampleEnv foreignPage foreignForm)"
  using analyzeForm_empty_action [OF resolvedAction_foreignForm, of exampleEnv foreignPage]
    foreignPage_scanned
  by (simp add: Let_def)

section \<open>Link analyzer\<close>

text \<open>
  The guard of the third rule works on the string it is given: a \<^verbatim>\<open>href\<close> that starts
  with \<^verbatim>\<open>#\<close> or with \<^verbatim>\<open>javascript:\<close> gets no finding of that rule.
\<close>

lemma string_prefix_guard:
  assumes "href l = JSString s" and "startsWith s ''#'' \<or> startsWith s ''javascript:''"
    and "linkFindings e w l = Inr fs"
  shows "\<lparr>url = u, reason = ''Non-Google link on Google-looking form''\<rparr> \<notin> set fs"
  using assms by (auto simp: linkFindings_def Let_def split: if_splits)

text \<open>
  C3.  The code at a page that looks like the brand, with a fragment anchor, a script
  anchor and an anchor to an IP address.  The guard reads \<^verbatim>\<open>link.href\<close>, which for the
  anchor written \<^verbatim>\<open>#top\<close> is the URL of the document followed by \<^verbatim>\<open>#top\<close>; it does not start
  with \<^verbatim>\<open>#\<close>, and the fragment anchor gets the finding of the third rule.  The script anchor
  gets none.
\<close>

theorem fragment_anchor_is_flagged:
  "looksLikeGoogleForm linkPage \<and>
   map hrefAttr (links linkPage) = [''#top'', ''javascript:void(0)'', ''http://198.51.100.9/track''] \<and>
   map href (links linkPage) =
     [JSString ''https://forms.example.net/login#top'', JSString ''javascript:void(0)'',
      JSString ''http://198.51.100.9/track''] \<and>
   analyzeSuspiciousLinks exampleEnv linkPage =
     Inr [\<lparr>url = JSString ''https://forms.example.net/login#top'',
            reason = ''Non-Google link on Google-looking form''\<rparr>,
          \<lparr>url = JSString ''http://198.51.100.9/track'', reason = ''IP address link''\<rparr>,
          \<lparr>url = JSString ''http://198.51.100.9/track'',
            reason = ''Non-Google link on Google-looking form''\<rparr>]"
  by code_simp

section \<open>Alert emitter\<close>

lemma mapLinks_builds:
  "list_all (\<lambda>l. isString (orElse (url l) (JSString []))) ls \<Longrightarrow>
   \<exists>xs. mapLinks ls = Inr xs \<and> length xs = length ls \<and>
        list_all (\<lambda>l. length (linkUrl l) \<le> 200 \<and> length (linkReason l) \<le> 100) xs"
proof (induction ls)
  case Nil
  then show ?case by simp
next
  case (Cons l ls)
  then obtain xs where xs: "mapLinks ls = Inr xs" "length xs = length ls"
    "list_all (\<lambda>l. length (linkUrl l) \<le> 200 \<and> length (linkReason l) \<le> 100) xs"
    by auto
  from Cons.prems obtain s where s: "orElse (url l) (JSString []) = JSString s"
    by (cases "orElse (url l) (JSString [])") auto
  show ?case by (simp add: xs s)
qed

lemma mapLinks_throws:
  "\<not> list_all (\<lambda>l. isString (orElse (url l) (JSString []))) ls \<Longrightarrow> mapLinks ls = Inl TypeError"
proof (induction ls)
  case Nil
  then show ?case by simp
next
  case (Cons l ls)
  show ?case
  proof (cases "orElse (url l) (JSString [])")
    case (JSString s)
    with Cons show ?thesis by simp
  qed simp_all
qed

lemma sanitizedData_builds:
  assumes "alertBuilds a ls"
  shows "\<exists>d. sanitizedData w a ls now = Inr d \<and> withinCaps d \<and> timestamp d = now"
proof -
  from assms obtain s where s: "orElse (formAction a) (JSString []) = JSString s"
    by (cases "orElse (formAction a) (JSString [])") (auto simp: alertBuilds_def)
  from assms have "list_all (\<lambda>l. isString (orElse (url l) (JSString []))) (take 10 ls)"
    by (simp add: alertBuilds_def)
  from mapLinks_builds [OF this] obtain xs where xs: "mapLinks (take 10 ls) = Inr xs"
    "length xs = length (take 10 ls)"
    "list_all (\<lambda>l. length (linkUrl l) \<le> 200 \<and> length (linkReason l) \<le> 100) xs"
    by auto
  show ?thesis by (simp add: sanitizedData_def s xs withinCaps_def)
qed

lemma sanitizedData_throws:
  assumes "\<not> alertBuilds a ls"
  shows "sanitizedData w a ls now = Inl TypeError"
proof (cases "orElse (formAction a) (JSString [])")
  case (JSString s)
  with assms have "\<not> list_all (\<lambda>l. isString (orElse (url l) (JSString []))) (take 10 ls)"
    by (simp add: alertBuilds_def)
  then have "mapLinks (take 10 ls) = Inl TypeError" by (rule mapLinks_throws)
  with JSString show ?thesis by (simp add: sanitizedData_def)
qed (simp_all add: sanitizedData_def)

lemma sendAlert_eq:
  "sendAlert e a ls w = (if alertBuilds a ls then Inr (delivered e a ls w) else Inl TypeError)"
proof (cases "alertBuilds a ls")
  case True
  from sanitizedData_builds [OF this] obtain d where
    "sanitizedData w a ls (dateNow e (dateNowCalls w)) = Inr d" by blast
  with True show ?thesis by (simp add: sendAlert_def delivered_def Let_def)
next
  case False
  then show ?thesis by (simp add: sendAlert_def sanitizedData_throws)
qed

lemma delivered_emitted:
  assumes "alertBuilds a ls"
  shows "\<exists>d. outbox (delivered e a ls w) = outbox w @ (if chromeRuntime e then [d] else []) \<and>
          withinCaps d \<and> timestamp d = dateNow e (dateNowCalls w)"
proof -
  from sanitizedData_builds [OF assms] obtain d where
    "sanitizedData w a ls (dateNow e (dateNowCalls w)) = Inr d" "withinCaps d"
    "timestamp d = dateNow e (dateNowCalls w)" by blast
  then show ?thesis by (auto simp: delivered_def)
qed

lemma delivered_fields:
  "dateNowCalls (delivered e a ls w) = Suc (dateNowCalls w)"
  "banners (delivered e a ls w) = banners w"
  "formOf (delivered e a ls w) = formOf w"
  "calls (delivered e a ls w) = calls w"
  "processedForms (delivered e a ls w) = processedForms w"
  "timers (delivered e a ls w) = timers w"
  by (simp_all add: delivered_def)


text \<open>
  C8.  Whatever the analysis, the link list and the state, \<open>sendAlert\<close> either throws
  while it builds the record, and then nothing is handed over (this happens exactly when
  the form action or the URL of one of the first ten links is an object that is not a
  string), or it hands to \<^verbatim>\<open>chrome.runtime.sendMessage\<close> (one record when the runtime is
  there, none otherwise) a record with a reason of at most 500 characters, a form action
  and a page URL of at most 200, at most 10 links, each with a URL of at most 200 and a
  reason of at most 100 characters, and as timestamp the integer that \<^verbatim>\<open>Date.now()\<close>
  returned.
\<close>

theorem sendAlert_record_capped:
  "case sendAlert e a ls w of
     Inl err \<Rightarrow> \<not> alertBuilds a ls
   | Inr w' \<Rightarrow>
       (\<exists>d. sanitizedData w a ls (dateNow e (dateNowCalls w)) = Inr d \<and>
            outbox w' = outbox w @ (if chromeRuntime e then [d] else []) \<and>
            length (alertReason d) \<le> 500 \<and> length (alertFormAction d) \<le> 200 \<and>
            length (alertPageUrl d) \<le> 200 \<and> length (alertSuspiciousLinks d) \<le> 10 \<and>
            list_all (\<lambda>l. length (linkUrl l) \<le> 200 \<and> length (linkReason l) \<le> 100)
              (alertSuspiciousLinks d) \<and>
            timestamp d = dateNow e (dateNowCalls w))"
proof (cases "alertBuilds a ls")
  case True
  from sanitizedData_builds [OF this] obtain d where
    d: "sanitizedData w a ls (dateNow e (dateNowCalls w)) = Inr d" "withinCaps d"
    "timestamp d = dateNow e (dateNowCalls w)" by blast
  with True show ?thesis
    by (simp add: sendAlert_eq delivered_def withinCaps_def)
next
  case False
  then show ?thesis by (simp add: sendAlert_eq)
qed

lemma longAlert_builds: "alertBuilds longAnalysis longLinks"
  by code_simp

theorem sendAlert_record_capped_witness:
  "(\<exists>d. sendAlert exampleEnv longAnalysis longLinks oneForm =
           Inr (delivered exampleEnv longAnalysis longLinks oneForm) \<and>
        outbox (delivered exampleEnv longAnalysis longLinks oneForm) = [d] \<and>
        length (alertReason d) \<le> 500 \<and> length (alertFormAction d) \<le> 200 \<and>
        length (alertPageUrl d) \<le> 200 \<and> length (alertSuspiciousLinks d) \<le> 10 \<and>
        list_all (\<lambda>l. length (linkUrl l) \<le> 200 \<and> length (linkReason l) \<le> 100)
          (alertSuspiciousLinks d) \<and>
        timestamp d = 1700000000000) \<and>
   length (join '', '' (reasons longAnalysis)) = 802 \<and>
   length (toStr (formAction longAnalysis)) = 300 \<and>
   length longLinks = 12"
proof -
  have b: "sendAlert exampleEnv longAnalysis longLinks oneForm =
           Inr (delivered exampleEnv longAnalysis longLinks oneForm)"
    using longAlert_builds by (simp add: sendAlert_eq)
  have o: "outbox oneForm = []" "chromeRuntime exampleEnv"
    "dateNow exampleEnv (dateNowCalls oneForm) = 1700000000000"
    by (simp_all add: oneForm_def examplePage_def exampleEnv_def)
  have l: "length (join '', '' (reasons longAnalysis)) = 802"
    "length (toStr (formAction longAnalysis)) = 300" "length longLinks = 12"
    by (simp_all add: longAnalysis_def longLinks_def)
  from sendAlert_record_capped
      [where e = exampleEnv and a = longAnalysis and ls = longLinks and w = oneForm]
  show ?thesis unfolding b by (auto simp: o l)
qed

section \<open>What each function changes\<close>

lemma createFormWarningBanner_fields:
  "banners (createFormWarningBanner e i a w) =
     (if bannerRefused i w then banners w else [newBanner e i a])"
  "formOf (createFormWarningBanner e i a w) =
     (if bannerRefused i w then formOf w
      else (formOf w)(i := disableFormSubmission ((formOf w i)\<lparr>sf_hasBanner := True\<rparr>)))"
  "calls (createFormWarningBanner e i a w) =
     calls w @ (if bannerRefused i w then [] else [BannerInserted i, SubmissionDisabled i])"
  "processedForms (createFormWarningBanner e i a w) = processedForms w"
  "timers (createFormWarningBanner e i a w) = timers w"
  "outbox (createFormWarningBanner e i a w) = outbox w"
  "dateNowCalls (createFormWarningBanner e i a w) = dateNowCalls w"
  by (simp_all add: createFormWarningBanner_def bannerRefused_def newBanner_def logCall_def
      updateForm_def Let_def)


lemma logCall_fields:
  "calls (logCall c w) = calls w @ [c]"
  "outbox (logCall c w) = outbox w"
  "dateNowCalls (logCall c w) = dateNowCalls w"
  "banners (logCall c w) = banners w"
  "formOf (logCall c w) = formOf w"
  "processedForms (logCall c w) = processedForms w"
  "timers (logCall c w) = timers w"
  by (simp_all add: logCall_def)


lemma bannerRefused_logCall: "bannerRefused i (logCall c w) = bannerRefused i w"
  by (simp add: bannerRefused_def logCall_def)



lemma formCallback_fields:
  "banners (worldOf (formCallback e ls i f w)) =
     (if flagged e i w \<and> \<not> bannerRefused i w
      then [newBanner e i (analyzeForm e w (formOf w i))] else banners w)"
  "formOf (worldOf (formCallback e ls i f w)) =
     (if flagged e i w \<and> \<not> bannerRefused i w
      then (formOf w)(i := disableFormSubmission ((formOf w i)\<lparr>sf_hasBanner := True\<rparr>))
      else formOf w)"
  "processedForms (worldOf (formCallback e ls i f w)) =
     (if flagged e i w \<and> alertBuilds (analyzeForm e w (formOf w i)) ls
      then insert i (processedForms w) else processedForms w)"
  "timers (worldOf (formCallback e ls i f w)) = timers w"
  "calls (worldOf (formCallback e ls i f w)) =
     calls w @
     (if i \<in> processedForms w then []
      else FormAnalyzed i #
        (if flagged e i w then
           (if bannerRefused i w then [] else [BannerInserted i, SubmissionDisabled i]) @
           (if alertBuilds (analyzeForm e w (formOf w i)) ls
            then [AlertSent (Some i), MarkedProcessed i] else [])
         else []))"
  by (simp_all add: formCallback_def flagged_def Let_def createFormWarningBanner_fields
      sendAlert_eq delivered_fields logCall_fields bannerRefused_logCall worldOf_def)


lemma formCallback_outbox:
  "\<forall>d\<in>set (outbox (worldOf (formCallback e ls i f w))). d \<in> set (outbox w) \<or> emitted e d"
proof (cases "flagged e i w \<and> alertBuilds (analyzeForm e w (formOf w i)) ls")
  case True
  let ?w1 = "createFormWarningBanner e i (analyzeForm e w (formOf w i)) (logCall (FormAnalyzed i) w)"
  from True delivered_emitted
    [where a = "analyzeForm e w (formOf w i)" and ls = ls and e = e and w = ?w1]
  obtain d where "outbox (delivered e (analyzeForm e w (formOf w i)) ls ?w1) =
      outbox ?w1 @ (if chromeRuntime e then [d] else [])" "emitted e d"
    by (auto simp: emitted_def)
  with True show ?thesis
    by (auto simp: formCallback_def flagged_def Let_def sendAlert_eq logCall_fields
        createFormWarningBanner_fields worldOf_def split: if_splits)
next
  case False
  then show ?thesis
    by (auto simp: formCallback_def flagged_def Let_def sendAlert_eq logCall_fields
        createFormWarningBanner_fields worldOf_def)
qed

lemma ignoreClick_fields:
  "processedForms (ignoreClick i w) = processedForms w"
  "timers (ignoreClick i w) = timers w"
  "outbox (ignoreClick i w) = outbox w"
  "calls (ignoreClick i w) = calls w"
  by (simp_all add: ignoreClick_def updateForm_def Let_def)

lemma dismissClick_fields:
  "processedForms (dismissClick i w) = processedForms w"
  "banners (dismissClick i w) = banners w"
  "formOf (dismissClick i w) = formOf w"
  "outbox (dismissClick i w) = outbox w"
  "calls (dismissClick i w) = calls w"
  by (simp_all add: dismissClick_def)

lemma dismissTimeout_fields:
  "processedForms (dismissTimeout i w) = processedForms w"
  "outbox (dismissTimeout i w) = outbox w"
  "calls (dismissTimeout i w) = calls w"
  by (simp_all add: dismissTimeout_def updateForm_def Let_def)




section \<open>Invariants of a page session\<close>

text \<open>
  A property of the state that every callback of the loop, the links-only alert and the
  three user events preserve holds along every run, whether or not a pass ends with an
  exception.
\<close>

lemma loopStep_None: "loopStep e ls i (None, f, w) = formCallback e ls i f w"
  by (simp add: loopStep_def thrownOf_def foundOf_def worldOf_def)


lemma loopStep_world:
  assumes "\<And>i f w. P w \<Longrightarrow> P (worldOf (formCallback e ls i f w))"
  shows "P (worldOf r) \<Longrightarrow> P (worldOf (loopStep e ls i r))"
  by (cases "thrownOf r") (simp_all add: loopStep_def assms)

lemma fold_loopStep_inv:
  assumes "\<And>i f w. P w \<Longrightarrow> P (worldOf (formCallback e ls i f w))"
  shows "P (worldOf r) \<Longrightarrow> P (worldOf (fold (loopStep e ls) ids r))"
proof (induction ids arbitrary: r)
  case Nil
  then show ?case by simp
next
  case (Cons i ids)
  have "P (worldOf (loopStep e ls i r))"
  proof (rule loopStep_world [where P = P])
    show "P (worldOf r)" by (rule Cons.prems)
  qed (erule assms)
  then have "P (worldOf (fold (loopStep e ls) ids (loopStep e ls i r)))" by (rule Cons.IH)
  then show ?case by simp
qed


lemma analyzePage_cases:
  assumes "shouldProcessPage w" and "analyzeSuspiciousLinks e w = Inr ls"
  shows "snd (analyzePageForPhishing e w) = worldOf (forEachForm e ls (formIds w) False w) \<or>
         (\<exists>a. alertBuilds a ls \<and>
              snd (analyzePageForPhishing e w) =
                logCall (AlertSent None)
                  (delivered e a ls (worldOf (forEachForm e ls (formIds w) False w))))"
  using assms
  by (auto simp: analyzePageForPhishing_def Let_def sendAlert_eq split: option.splits)

lemma analyzePage_inv:
  assumes init: "P w"
    and cb: "\<And>ls i f w. P w \<Longrightarrow> P (worldOf (formCallback e ls i f w))"
    and al: "\<And>a ls w. P w \<Longrightarrow> alertBuilds a ls \<Longrightarrow> P (logCall (AlertSent None) (delivered e a ls w))"
  shows "P (snd (analyzePageForPhishing e w))"
proof (cases "shouldProcessPage w")
  case False
  with init show ?thesis by (simp add: analyzePageForPhishing_def)
next
  case True
  show ?thesis
  proof (cases "analyzeSuspiciousLinks e w")
    case (Inl err)
    with True init show ?thesis by (simp add: analyzePageForPhishing_def)
  next
    case (Inr ls)
    have f: "P (worldOf (forEachForm e ls (formIds w) False w))"
      unfolding forEachForm_def
    proof (rule fold_loopStep_inv [where P = P])
      show "P (worldOf (None, False, w))" using init by (simp add: worldOf_def)
    qed (erule cb)
    from analyzePage_cases [OF True Inr] f show ?thesis
      by (auto intro: al)
  qed
qed

lemma run_inv:
  assumes "\<And>w. P w \<Longrightarrow> P (snd (analyzePageForPhishing e w))"
    and "\<And>i w. P w \<Longrightarrow> P (ignoreClick i w)"
    and "\<And>i w. P w \<Longrightarrow> P (dismissClick i w)"
    and "\<And>i w. P w \<Longrightarrow> P (dismissTimeout i w)"
  shows "P w \<Longrightarrow> P (run e evs w)"
proof (induction evs arbitrary: w)
  case Nil
  then show ?case by (simp add: run_def)
next
  case (Cons ev evs)
  have "P (step e ev w)"
    using Cons.prems assms by (cases ev) simp_all
  then have "P (run e evs (step e ev w))" by (rule Cons.IH)
  then show ?case by (simp add: run_def)
qed

lemma session_inv:
  assumes init: "P w"
    and cb: "\<And>ls i f w. P w \<Longrightarrow> P (worldOf (formCallback e ls i f w))"
    and al: "\<And>a ls w. P w \<Longrightarrow> alertBuilds a ls \<Longrightarrow> P (logCall (AlertSent None) (delivered e a ls w))"
    and ic: "\<And>i w. P w \<Longrightarrow> P (ignoreClick i w)"
    and dc: "\<And>i w. P w \<Longrightarrow> P (dismissClick i w)"
    and dt: "\<And>i w. P w \<Longrightarrow> P (dismissTimeout i w)"
  shows "P (run e evs w)"
proof (rule run_inv [where P = P])
  show "P (snd (analyzePageForPhishing e w))" if "P w" for w
    using that
  proof (rule analyzePage_inv [where P = P])
    show "P (logCall (AlertSent None) (delivered e a ls w))" if "P w" "alertBuilds a ls" for a ls w
      using that by (rule al)
  qed (erule cb)
qed (erule ic, erule dc, erule dt, rule init)

subsection \<open>At most one banner\<close>

lemma banner_singleton:
  assumes "length (banners w) \<le> 1"
  shows "length (banners (run e evs w)) \<le> 1"
  using assms
proof (rule session_inv [where P = "\<lambda>w. length (banners w) \<le> 1"], goal_cases)
  case (1 ls i f w)
  then show ?case by (simp add: formCallback_fields)
next
  case (2 a ls w)
  then show ?case by (simp add: logCall_fields delivered_fields)
next
  case (3 i w)
  then show ?case by (simp add: ignoreClick_def updateForm_def Let_def)
next
  case (4 i w)
  then show ?case by (simp add: dismissClick_fields)
next
  case (5 i w)
  have "length (filter (\<lambda>b. bannerForm b \<noteq> i) (banners w)) \<le> length (banners w)"
    by (rule length_filter_le)
  from this 5 have "length (filter (\<lambda>b. bannerForm b \<noteq> i) (banners w)) \<le> 1"
    by (rule le_trans)
  with 5 show ?case by (simp add: dismissTimeout_def updateForm_def Let_def)
qed

subsection \<open>Alert records\<close>

lemma outbox_emitted:
  assumes "\<forall>d\<in>set (outbox w). emitted e d"
  shows "\<forall>d\<in>set (outbox (run e evs w)). emitted e d"
  using assms
proof (rule session_inv [where P = "\<lambda>w. \<forall>d\<in>set (outbox w). emitted e d"], goal_cases)
  case (1 ls i f w)
  with formCallback_outbox [of e ls i f w] show ?case by blast
next
  case (2 a ls w)
  from delivered_emitted [OF 2(2), of e w] 2(1) show ?case
    by (auto simp: logCall_fields emitted_def)
next
  case (3 i w)
  then show ?case by (simp add: ignoreClick_fields)
next
  case (4 i w)
  then show ?case by (simp add: dismissClick_fields)
next
  case (5 i w)
  then show ?case by (simp add: dismissTimeout_fields)
qed

subsection \<open>The calls about one form\<close>









section \<open>Form guard\<close>

lemma enable_after_disable:
  "list_all disabled (submitButtons (enableFormSubmission (disableFormSubmission f)))"
  by (simp add: enableFormSubmission_def disableFormSubmission_def enableButton_def
      disableButton_def boolString_def Let_def list_all_iff)

text \<open>
  C1.  The code at a form with one enabled and one disabled submit control: blocking
  disables both and remembers \<^verbatim>\<open>true\<close> for both, since \<open>disableButton\<close> reads the flag
  after setting it; the override therefore leaves both disabled (and removes the submit
  listener).  The control that was enabled before blocking is not enabled again.
\<close>

theorem override_leaves_enabled_control_disabled:
  "let blocked = run exampleEnv [Scan] oneForm; overridden = ignoreClick 1 blocked in
     map disabled (submitButtons (formOf oneForm 1)) = [False, True] \<and>
     map disabled (submitButtons (formOf blocked 1)) = [True, True] \<and>
     map originalDisabled (submitButtons (formOf blocked 1)) = [Some ''true'', Some ''true''] \<and>
     map bannerForm (banners blocked) = [1] \<and>
     map disabled (submitButtons (formOf overridden 1)) = [True, True] \<and>
     \<not> preventSubmission (formOf overridden 1)"
  by code_simp

text \<open>
  C2.  The code at a page with two suspicious forms: one pass leaves one banner (for the
  first form), marks the second form processed and sends its alert, but returns from
  \<open>createFormWarningBanner\<close> before \<open>disableFormSubmission\<close>: the enabled submit
  control of the second form stays enabled and no submit listener is installed.
\<close>

theorem second_suspicious_form_not_blocked:
  "let w = run exampleEnv [Scan] twoForms in
     isSuspicious (analyzeForm exampleEnv twoForms (formOf twoForms 2)) \<and>
     map bannerForm (banners w) = [1] \<and>
     2 \<in> processedForms w \<and>
     map alertFormAction (outbox w) = [ipAction, punycodeAction] \<and>
     map disabled (submitButtons (formOf w 2)) = [False, True] \<and>
     \<not> preventSubmission (formOf w 2)"
  by code_simp

section \<open>Per-form processing\<close>

subsection \<open>Pages on which every read gives a string\<close>





subsection \<open>The first pass\<close>




















section \<open>Override and dismissal\<close>

text \<open>
  The page whose form has a control named \<^verbatim>\<open>action\<close>.  The form is found suspicious, gets
  its banner and is blocked; then \<open>sendAlert\<close> throws while it builds the record, the pass
  ends there, no alert is sent and the form is not marked processed.  Every later pass
  analyses the form again.
\<close>

lemma clobberedPage_fresh: "fresh clobberedPage"
  by (simp add: fresh_def clobberedPage_def examplePage_def formTo_def clobberedFormTo_def)

lemma clobberedPage_throws:
  "let r = analyzePageForPhishing exampleEnv clobberedPage in
     \<not> stringTyped clobberedPage \<and>
     fst r = Some TypeError \<and>
     calls (snd r) = [FormAnalyzed 1, BannerInserted 1, SubmissionDisabled 1] \<and>
     outbox (snd r) = [] \<and>
     1 \<notin> processedForms (snd r)"
  by code_simp

lemma clobberedPage_reanalysed:
  "let w = run exampleEnv [Scan, Scan, Scan] clobberedPage in
     count_list (calls w) (FormAnalyzed 1) = 3 \<and> outbox w = [] \<and> 1 \<notin> processedForms w"
  by code_simp

text \<open>
  C7.  The code at that page: the user overrides the warning (the ignore button is
  consumed, the submit listener removed) and then dismisses the banner; after the removal
  of the banner the next pass inserts a new banner for the same form with an enabled
  ignore button, disables the submit controls and installs the submit listener again, and
  a click on the new button overrides the form a second time.
\<close>

theorem override_undone_by_rescan:
  "let overridden = run exampleEnv [Scan, IgnoreClick 1] clobberedPage;
       rescanned = run exampleEnv [DismissClick 1, DismissTimeout 1, Scan] overridden;
       again = ignoreClick 1 rescanned
   in map ignoreDisabled (banners overridden) = [True] \<and>
      \<not> preventSubmission (formOf overridden 1) \<and>
      1 \<notin> processedForms overridden \<and>
      map bannerForm (banners rescanned) = [1] \<and>
      map ignoreDisabled (banners rescanned) = [False] \<and>
      preventSubmission (formOf rescanned 1) \<and>
      map disabled (submitButtons (formOf rescanned 1)) = [True, True] \<and>
      count_list (calls rescanned) (SubmissionDisabled 1) = 2 \<and>
      map ignoreDisabled (banners again) = [True] \<and>
      \<not> preventSubmission (formOf again 1)"
  by code_simp

text \<open>
  C10.  The code at that page: after the pass the user dismisses the banner; the banner
  is removed and the form stays blocked, but it is not marked processed, and the next pass
  inserts a new banner with an enabled ignore button for it.
\<close>

theorem banner_recreated_after_dismissal:
  "let blocked = run exampleEnv [Scan] clobberedPage;
       dismissed = run exampleEnv [DismissClick 1, DismissTimeout 1] blocked;
       rescanned = run exampleEnv [Scan] dismissed
   in map bannerForm (banners blocked) = [1] \<and>
      banners dismissed = [] \<and>
      preventSubmission (formOf dismissed 1) \<and>
      map disabled (submitButtons (formOf dismissed 1)) = [True, True] \<and>
      1 \<notin> processedForms dismissed \<and>
      map bannerForm (banners rescanned) = [1] \<and>
      map ignoreText (banners rescanned) = [''Ignore & Submit Anyway''] \<and>
      map ignoreDisabled (banners rescanned) = [False] \<and>
      count_list (calls rescanned) (BannerInserted 1) = 2"
  by code_simp

end
